theory Spec2Isabelle
  imports Main
begin

section \<open>JavaScript values the gateway code inspects\<close>

text \<open>
  A thrown value is either an \<open>Error\<close> object (its \<open>name\<close> and its \<open>message\<close>) or some
  other value, of which only the rendering by \<open>String(...)\<close> is kept.
\<close>

datatype exn = Error string string | Thrown string

text \<open>\<open>String(error)\<close>: for an \<open>Error\<close> object this is \<open>Error.prototype.toString\<close>.\<close>

fun String_of :: "exn \<Rightarrow> string" where
  "String_of (Error n m) = (if n = [] then m else if m = [] then n else n @ '': '' @ m)"
| "String_of (Thrown s) = s"

text \<open>\<open>error instanceof Error ? error.message : 'Unknown error'\<close>\<close>

fun message_or_unknown :: "exn \<Rightarrow> string" where
  "message_or_unknown (Error n m) = m"
| "message_or_unknown (Thrown s) = ''Unknown error''"

text \<open>\<open>s.startsWith(t)\<close> and \<open>s.includes(t)\<close> on strings.\<close>

fun startsWith :: "string \<Rightarrow> string \<Rightarrow> bool" where
  "startsWith s [] = True"
| "startsWith [] (c # t) = False"
| "startsWith (d # s) (c # t) = (d = c \<and> startsWith s t)"

fun str_includes :: "string \<Rightarrow> string \<Rightarrow> bool" where
  "str_includes [] t = (t = [])"
| "str_includes (d # s) t = (startsWith (d # s) t \<or> str_includes s t)"

text \<open>
  Truthiness of an optional string (\<open>undefined\<close> and \<open>''\<close> are falsy), and \<open>v || ''\<close>.
\<close>

definition truthy :: "string option \<Rightarrow> bool" where
  "truthy v = (case v of None \<Rightarrow> False | Some s \<Rightarrow> s \<noteq> [])"

definition or_empty :: "string option \<Rightarrow> string" where
  "or_empty v = (case v of None \<Rightarrow> [] | Some s \<Rightarrow> s)"

text \<open>
  \<open>obj.k = v\<close> on a \<open>Record<string, string\<close>\<open>>\<close>, kept as an association list in insertion
  order: an existing key keeps its place, a new key goes last.
\<close>

fun assign :: "(string \<times> string) list \<Rightarrow> string \<Rightarrow> string \<Rightarrow> (string \<times> string) list" where
  "assign [] k v = [(k, v)]"
| "assign (p # ps) k v = (if fst p = k then (k, v) # ps else p # assign ps k v)"

section \<open>Data\<close>

text \<open>An entry of \<open>sandbox.listProcesses()\<close>; \<open>command\<close> and \<open>args\<close> are read with \<open>?.\<close>.\<close>

record process =
  pid :: int
  command :: "string option"
  args :: "string list option"
  status :: string

text \<open>What \<open>findExistingMoltbotProcess\<close> returns when it finds a process.\<close>

record found =
  found_pid :: int
  found_status :: string

text \<open>The result of \<open>sandbox.exec\<close>.\<close>

record exec_result =
  stdout :: string
  stderr :: string
  exitCode :: int

text \<open>The argument of \<open>sandbox.startProcess\<close>.\<close>

record start_opts =
  so_command :: "string list"
  so_env :: "(string \<times> string) list"
  so_workingDirectory :: "string option"

text \<open>The R2 bucket binding is an opaque object; only its presence is tested.\<close>

datatype bucket = R2Bucket string

text \<open>The fields of \<open>MoltbotEnv\<close> that the gateway code reads.\<close>

record MoltbotEnv =
  MOLTBOT_BUCKET :: "bucket option"
  R2_BUCKET_NAME :: "string option"
  ANTHROPIC_API_KEY :: "string option"
  OPENAI_API_KEY :: "string option"
  MOLTBOT_GATEWAY_TOKEN :: "string option"

text \<open>The object \<open>syncToR2\<close> resolves to; an omitted property is \<open>None\<close>.\<close>

record sync_result =
  success :: bool
  error :: "string option"
  details :: "string option"
  lastSync :: "string option"

section \<open>The sandbox and the effects of a call\<close>

text \<open>
  The sandbox is a collaborator: its answers are a parameter. A runtime over a world \<open>'w\<close>
  says, for every world, what each sandbox method returns (\<open>Inl\<close>: the promise rejects)
  and which world it leaves, how the world moves while the code sleeps, and what the clock
  reads. Console output is not modelled.
\<close>

record 'w runtime =
  rt_exec :: "string \<Rightarrow> 'w \<Rightarrow> (exn + exec_result) \<times> 'w"
  rt_listProcesses :: "'w \<Rightarrow> (exn + process list) \<times> 'w"
  rt_startProcess :: "start_opts \<Rightarrow> 'w \<Rightarrow> (exn + process) \<times> 'w"
  rt_mountBucket :: "bucket \<Rightarrow> string \<Rightarrow> bool \<Rightarrow> 'w \<Rightarrow> (exn + unit) \<times> 'w"
  rt_elapse :: "nat \<Rightarrow> 'w \<Rightarrow> 'w"
  rt_now :: "'w \<Rightarrow> string"

text \<open>
  Every call is logged with its arguments and its outcome, in order; \<open>MountBucket b path ro\<close>
  is \<open>mountBucket(b, path, {readOnly: ro})\<close> and \<open>Delay ms\<close> is a \<open>setTimeout\<close> wait.
\<close>

datatype event =
    Exec string "exn + exec_result"
  | ListProcesses "exn + process list"
  | StartProcess start_opts "exn + process"
  | MountBucket bucket string bool "exn + unit"
  | Delay nat

text \<open>
  An awaited computation takes the world and the log so far and returns a value or a
  thrown exception, with the world and the log it leaves.
\<close>

type_synonym ('a, 'w) io = "'w \<times> event list \<Rightarrow> (exn + 'a) \<times> ('w \<times> event list)"

definition io_return :: "'a \<Rightarrow> ('a, 'w) io" where
  "io_return x s = (Inr x, s)"

definition io_throw :: "exn \<Rightarrow> ('a, 'w) io" where
  "io_throw e s = (Inl e, s)"

definition io_bind :: "('a, 'w) io \<Rightarrow> ('a \<Rightarrow> ('b, 'w) io) \<Rightarrow> ('b, 'w) io" where
  "io_bind m k s = (case m s of (Inl e, s') \<Rightarrow> (Inl e, s') | (Inr x, s') \<Rightarrow> k x s')"

text \<open>\<open>try { m } catch (error) { h error }\<close>\<close>

definition io_catch :: "('a, 'w) io \<Rightarrow> (exn \<Rightarrow> ('a, 'w) io) \<Rightarrow> ('a, 'w) io" where
  "io_catch m h s = (case m s of (Inl e, s') \<Rightarrow> h e s' | (Inr x, s') \<Rightarrow> (Inr x, s'))"

definition exec :: "'w runtime \<Rightarrow> string \<Rightarrow> (exec_result, 'w) io" where
  "exec rt cmd s =
     (case s of (w, tr) \<Rightarrow> case rt_exec rt cmd w of (r, w') \<Rightarrow> (r, (w', tr @ [Exec cmd r])))"

definition listProcesses :: "'w runtime \<Rightarrow> (process list, 'w) io" where
  "listProcesses rt s =
     (case s of (w, tr) \<Rightarrow> case rt_listProcesses rt w of (r, w') \<Rightarrow> (r, (w', tr @ [ListProcesses r])))"

definition startProcess :: "'w runtime \<Rightarrow> start_opts \<Rightarrow> (process, 'w) io" where
  "startProcess rt opts s =
     (case s of (w, tr) \<Rightarrow>
        case rt_startProcess rt opts w of (r, w') \<Rightarrow> (r, (w', tr @ [StartProcess opts r])))"

definition mountBucket :: "'w runtime \<Rightarrow> bucket \<Rightarrow> string \<Rightarrow> bool \<Rightarrow> (unit, 'w) io" where
  "mountBucket rt b path ro s =
     (case s of (w, tr) \<Rightarrow>
        case rt_mountBucket rt b path ro w of (r, w') \<Rightarrow> (r, (w', tr @ [MountBucket b path ro r])))"

text \<open>\<open>await new Promise(resolve => setTimeout(resolve, ms))\<close>\<close>

definition delay :: "'w runtime \<Rightarrow> nat \<Rightarrow> (unit, 'w) io" where
  "delay rt ms s = (case s of (w, tr) \<Rightarrow> (Inr (), (rt_elapse rt ms w, tr @ [Delay ms])))"

text \<open>\<open>new Date().toISOString()\<close>\<close>

definition now :: "'w runtime \<Rightarrow> (string, 'w) io" where
  "now rt s = (case s of (w, tr) \<Rightarrow> (Inr (rt_now rt w), s))"

section \<open>Gateway management and R2 persistence\<close>

text \<open>
  The repository holds the supervision logic more than once. This section embeds the
  complete module (\<open>Gateway management and R2 persistence for Moltbot\<close>: mount, symlinks,
  launch, verification, mirrored sync); the shorter variants follow in the next section.

  The search predicate of \<open>findExistingMoltbotProcess\<close> is
  \<open>p.command?.includes('start-openclaw.sh') || p.command?.includes('openclaw') ||
  p.args?.some(arg => arg.includes('openclaw'))\<close>, and \<open>processes.find\<close> returns the first
  process that satisfies it.
\<close>

definition isMoltbotProcess :: "process \<Rightarrow> bool" where
  "isMoltbotProcess p =
     ((case command p of None \<Rightarrow> False | Some c \<Rightarrow> str_includes c ''start-openclaw.sh'')
      \<or> (case command p of None \<Rightarrow> False | Some c \<Rightarrow> str_includes c ''openclaw'')
      \<or> (case args p of None \<Rightarrow> False | Some as \<Rightarrow> list_ex (\<lambda>arg. str_includes arg ''openclaw'') as))"

definition findExistingMoltbotProcess :: "'w runtime \<Rightarrow> (found option, 'w) io" where
  "findExistingMoltbotProcess rt =
     io_catch
       (io_bind (listProcesses rt) (\<lambda>processes.
          case find isMoltbotProcess processes of
            Some moltbotProcess \<Rightarrow>
              io_return (Some \<lparr>found_pid = pid moltbotProcess, found_status = status moltbotProcess\<rparr>)
          | None \<Rightarrow> io_return None))
       (\<lambda>error. io_return None)"

text \<open>
  \<open>mountR2Storage\<close> tests \<open>!env.R2_BUCKET_NAME || !env.MOLTBOT_BUCKET\<close>; the two tests have no
  effect, and the \<open>case\<close> below hands the bucket to the branch that uses it.
\<close>

definition mountR2Storage :: "'w runtime \<Rightarrow> MoltbotEnv \<Rightarrow> (bool, 'w) io" where
  "mountR2Storage rt env =
     (case MOLTBOT_BUCKET env of
        None \<Rightarrow> io_return False
      | Some b \<Rightarrow>
          if \<not> truthy (R2_BUCKET_NAME env) then io_return False
          else
            io_catch
              (io_bind (exec rt ''mkdir -p /data/moltbot'') (\<lambda>_.
               io_bind (exec rt ''chmod 777 /data/moltbot'') (\<lambda>_.
               io_bind (mountBucket rt b ''/data/moltbot'' False) (\<lambda>_.
               io_bind (exec rt ''mkdir -p /data/moltbot/openclaw'') (\<lambda>_.
               io_bind (exec rt ''ln -sf /data/moltbot/openclaw /root/.openclaw'') (\<lambda>_.
               io_bind (exec rt ''ln -sf /data/moltbot/openclaw /root/clawd/data'') (\<lambda>_.
               io_return True)))))))
              (\<lambda>error. io_return False))"

text \<open>
  The environment object built before the launch: the literal with three entries, then one
  assignment per configured value. Under its guard a value is a non-empty string, which
  \<open>or_empty\<close> reads off the option.
\<close>

definition openclawEnv :: "MoltbotEnv \<Rightarrow> (string \<times> string) list" where
  "openclawEnv env =
     (let e0 = [(''NODE_ENV'', ''production''),
                (''PATH'', ''/usr/local/bin:/usr/bin:/bin''),
                (''HOME'', ''/root'')];
          e1 = (if truthy (ANTHROPIC_API_KEY env)
                then assign e0 ''ANTHROPIC_API_KEY'' (or_empty (ANTHROPIC_API_KEY env)) else e0);
          e2 = (if truthy (OPENAI_API_KEY env)
                then assign e1 ''OPENAI_API_KEY'' (or_empty (OPENAI_API_KEY env)) else e1);
          e3 = (if truthy (MOLTBOT_GATEWAY_TOKEN env)
                then assign e2 ''OPENCLAW_GATEWAY_TOKEN'' (or_empty (MOLTBOT_GATEWAY_TOKEN env)) else e2)
      in e3)"

text \<open>\<open>existing && existing.status === 'running'\<close>\<close>

definition isRunning :: "found option \<Rightarrow> bool" where
  "isRunning existing =
     (case existing of None \<Rightarrow> False | Some f \<Rightarrow> found_status f = ''running'')"

definition ensureMoltbotGateway :: "'w runtime \<Rightarrow> MoltbotEnv \<Rightarrow> (unit, 'w) io" where
  "ensureMoltbotGateway rt env =
     io_bind (findExistingMoltbotProcess rt) (\<lambda>existing.
       if isRunning existing then io_return ()
       else
         io_catch
           (io_bind (mountR2Storage rt env) (\<lambda>r2Mounted.
            io_bind (startProcess rt
                       \<lparr>so_command = [''/usr/local/bin/start-openclaw.sh''],
                        so_env = openclawEnv env,
                        so_workingDirectory = Some ''/root/clawd''\<rparr>) (\<lambda>proc.
            io_bind (delay rt 2000) (\<lambda>_.
            io_bind (findExistingMoltbotProcess rt) (\<lambda>verify.
              if \<not> isRunning verify then io_throw (Error ''Error'' ''Gateway failed to start'')
              else io_return ())))))
           (\<lambda>error. io_throw error))"

text \<open>
  In \<open>syncToR2\<close> the mount is attempted only when the mount-table query prints
  \<open>not mounted\<close>, and the early return sits inside that branch; here \<open>mounted\<close> is \<open>True\<close> when
  no attempt is made, so that the early return is taken exactly when an attempt returned
  \<open>false\<close>.
\<close>

definition syncToR2 :: "'w runtime \<Rightarrow> MoltbotEnv \<Rightarrow> (sync_result, 'w) io" where
  "syncToR2 rt env =
     io_catch
       (if \<not> truthy (R2_BUCKET_NAME env) then
          io_return \<lparr>success = False, error = Some ''R2 storage is not configured'',
                     details = Some ''Missing R2_BUCKET_NAME environment variable'',
                     lastSync = None\<rparr>
        else
          io_bind (exec rt ''mount | grep /data/moltbot || echo \"not mounted\"'') (\<lambda>check.
          io_bind (if str_includes (stdout check) ''not mounted''
                   then mountR2Storage rt env else io_return True) (\<lambda>mounted.
            if \<not> mounted then
              io_return \<lparr>success = False, error = Some ''R2 storage not mounted'',
                         details = Some ''Failed to mount R2 bucket'', lastSync = None\<rparr>
            else
              io_bind (exec rt ''mkdir -p /root/.openclaw'') (\<lambda>_.
              io_bind (exec rt ''mkdir -p /data/moltbot/openclaw'') (\<lambda>_.
              io_bind (exec rt ''rsync -av --delete /root/.openclaw/ /data/moltbot/openclaw/ 2>&1'')
                (\<lambda>syncResult.
                if stderr syncResult \<noteq> []
                   \<and> \<not> str_includes (stderr syncResult) ''sending incremental file list''
                then
                  io_return \<lparr>success = False, error = Some ''Sync failed'',
                             details = Some (stderr syncResult), lastSync = None\<rparr>
                else
                  io_bind (now rt) (\<lambda>t.
                  io_return \<lparr>success = True, error = None, details = None,
                             lastSync = Some t\<rparr>)))))))
       (\<lambda>error.
          io_return \<lparr>success = False, error = Some ''Sync failed'',
                     details = Some (message_or_unknown error), lastSync = None\<rparr>)"

section \<open>The other implementations in the repository\<close>

text \<open>
  Two shorter variants of the same logic are kept in the repository beside the complete
  module, under the same function names. They are embedded here under suffixed names, and
  the claims below say what each implementation does.

  \<open>src/gateway/r2.ts\<close> exports its own \<open>mountR2Storage\<close>, which resolves to no value and
  re-throws what it catches (\<open>throw error; // Re-throw so caller knows mount failed\<close>).
\<close>

definition mountR2Storage_r2 :: "'w runtime \<Rightarrow> MoltbotEnv \<Rightarrow> (unit, 'w) io" where
  "mountR2Storage_r2 rt env =
     (case MOLTBOT_BUCKET env of
        None \<Rightarrow> io_return ()
      | Some b \<Rightarrow>
          if \<not> truthy (R2_BUCKET_NAME env) then io_return ()
          else
            io_catch
              (io_bind (exec rt ''mkdir -p /data/moltbot && chmod 777 /data/moltbot'') (\<lambda>_.
               mountBucket rt b ''/data/moltbot'' False))
              (\<lambda>error. io_throw error))"

text \<open>
  The shorter gateway module (\<open>Gateway management for Moltbot\<close>): it mounts inline before
  looking for the process, launches without verification, and copies without a mount check.
\<close>

definition isMoltbotProcess_v1 :: "process \<Rightarrow> bool" where
  "isMoltbotProcess_v1 p =
     (case command p of None \<Rightarrow> False | Some c \<Rightarrow> str_includes c ''openclaw'')"

definition findExistingMoltbotProcess_v1 :: "'w runtime \<Rightarrow> (found option, 'w) io" where
  "findExistingMoltbotProcess_v1 rt =
     io_catch
       (io_bind (listProcesses rt) (\<lambda>processes.
          case find isMoltbotProcess_v1 processes of
            Some moltbotProcess \<Rightarrow>
              io_return (Some \<lparr>found_pid = pid moltbotProcess, found_status = status moltbotProcess\<rparr>)
          | None \<Rightarrow> io_return None))
       (\<lambda>error. io_return None)"

definition ensureMoltbotGateway_v1 :: "'w runtime \<Rightarrow> MoltbotEnv \<Rightarrow> (unit, 'w) io" where
  "ensureMoltbotGateway_v1 rt env =
     io_bind
       (case MOLTBOT_BUCKET env of
          None \<Rightarrow> io_return ()
        | Some b \<Rightarrow>
            if truthy (R2_BUCKET_NAME env) then
              io_catch
                (io_bind (exec rt ''mkdir -p /data/moltbot && chmod 777 /data/moltbot'') (\<lambda>_.
                 mountBucket rt b ''/data/moltbot'' False))
                (\<lambda>error. io_return ())
            else io_return ()) (\<lambda>_.
     io_bind (findExistingMoltbotProcess_v1 rt) (\<lambda>existing.
       if isRunning existing then io_return ()
       else
         io_bind (startProcess rt
                    \<lparr>so_command = [''/usr/local/bin/start-openclaw.sh''],
                     so_env = [(''ANTHROPIC_API_KEY'', or_empty (ANTHROPIC_API_KEY env)),
                               (''NODE_ENV'', ''production'')],
                     so_workingDirectory = None\<rparr>) (\<lambda>_.
         io_return ())))"

definition syncToR2_v1 :: "'w runtime \<Rightarrow> MoltbotEnv \<Rightarrow> (sync_result, 'w) io" where
  "syncToR2_v1 rt env =
     io_catch
       (if \<not> truthy (R2_BUCKET_NAME env) then
          io_return \<lparr>success = False, error = Some ''R2_BUCKET_NAME not set'',
                     details = None, lastSync = None\<rparr>
        else
          io_bind (exec rt ''rsync -av /root/.openclaw/ /data/moltbot/openclaw/ 2>&1'') (\<lambda>result.
          io_return \<lparr>success = True, error = None, details = None, lastSync = None\<rparr>))
       (\<lambda>error.
          io_return \<lparr>success = False, error = Some (String_of error),
                     details = None, lastSync = None\<rparr>)"

section \<open>Reading a log\<close>

fun is_mount :: "event \<Rightarrow> bool" where
  "is_mount (MountBucket b path ro r) = True"
| "is_mount ev = False"

fun is_launch :: "event \<Rightarrow> bool" where
  "is_launch (StartProcess opts r) = True"
| "is_launch ev = False"


text \<open>The commands passed to \<open>exec\<close>, and the environments passed to \<open>startProcess\<close>.\<close>

fun exec_cmds :: "event list \<Rightarrow> string list" where
  "exec_cmds [] = []"
| "exec_cmds (Exec cmd r # tr) = cmd # exec_cmds tr"
| "exec_cmds (ev # tr) = exec_cmds tr"

fun launch_envs :: "event list \<Rightarrow> (string \<times> string) list list" where
  "launch_envs [] = []"
| "launch_envs (StartProcess opts r # tr) = so_env opts # launch_envs tr"
| "launch_envs (ev # tr) = launch_envs tr"

text \<open>The shell commands of \<open>mountR2Storage\<close>.\<close>

definition mount_cmds :: "string list" where
  "mount_cmds = [''mkdir -p /data/moltbot'', ''chmod 777 /data/moltbot'',
     ''mkdir -p /data/moltbot/openclaw'', ''ln -sf /data/moltbot/openclaw /root/.openclaw'',
     ''ln -sf /data/moltbot/openclaw /root/clawd/data'']"

text \<open>
  What the search returns for an answer of the registry, with \<open>sig\<close> the search predicate;
  \<open>findExisting_run\<close> below shows that this is what the function computes.
\<close>

definition found_of :: "(process \<Rightarrow> bool) \<Rightarrow> exn + process list \<Rightarrow> found option" where
  "found_of sig out =
     (case out of
        Inl e \<Rightarrow> None
      | Inr ps \<Rightarrow> (case find sig ps of
                    None \<Rightarrow> None
                  | Some p \<Rightarrow> Some \<lparr>found_pid = pid p, found_status = status p\<rparr>))"

text \<open>
  Whether a listing shows the gateway running as the code reads it (the first process that
  matches the signature has status \<open>running\<close>), and a process that matches and is running.
\<close>

definition listing_running :: "exn + process list \<Rightarrow> bool" where
  "listing_running out =
     (case out of
        Inl e \<Rightarrow> False
      | Inr ps \<Rightarrow> (case find isMoltbotProcess ps of None \<Rightarrow> False | Some p \<Rightarrow> status p = ''running''))"

definition running_gateway :: "process \<Rightarrow> bool" where
  "running_gateway p = (isMoltbotProcess p \<and> status p = ''running'')"

section \<open>A concrete sandbox\<close>

text \<open>
  A small sandbox to run the code on: a process registry that may be down, a mount table
  of one entry, a volume mounter that may refuse, commands that may reject, and the file
  names of the two directories the copy works on. The copy either mirrors the local
  directory (exit status 0) or fails as the world says, leaving the files alone.
\<close>

record world =
  registry :: "process list"
  registry_down :: bool
  mounted :: bool
  mounter_refuses :: bool
  rejected_cmds :: "string list"
  spawn_status :: string
  local_files :: "string list"
  durable_files :: "string list"
  copy_exit :: int
  copy_stdout :: string
  copy_stderr :: string

definition ok_result :: "string \<Rightarrow> exec_result" where
  "ok_result out = \<lparr>stdout = out, stderr = [], exitCode = 0\<rparr>"

definition demo_exec :: "string \<Rightarrow> world \<Rightarrow> (exn + exec_result) \<times> world" where
  "demo_exec cmd w =
     (if cmd \<in> set (rejected_cmds w) then (Inl (Error ''Error'' ''command failed''), w)
      else if cmd = ''mount | grep /data/moltbot || echo \"not mounted\"'' then
        (Inr (ok_result (if mounted w then ''r2 on /data/moltbot type fuse'' else ''not mounted'')), w)
      else if cmd = ''rsync -av --delete /root/.openclaw/ /data/moltbot/openclaw/ 2>&1'' then
        (Inr \<lparr>stdout = copy_stdout w, stderr = copy_stderr w, exitCode = copy_exit w\<rparr>,
         if copy_exit w = 0 then w\<lparr>durable_files := local_files w\<rparr> else w)
      else if cmd = ''rsync -av /root/.openclaw/ /data/moltbot/openclaw/ 2>&1'' then
        (Inr \<lparr>stdout = copy_stdout w, stderr = copy_stderr w, exitCode = copy_exit w\<rparr>,
         if copy_exit w = 0
         then w\<lparr>durable_files := local_files w @ filter (\<lambda>f. f \<notin> set (local_files w)) (durable_files w)\<rparr>
         else w)
      else (Inr (ok_result []), w))"

definition demo_listProcesses :: "world \<Rightarrow> (exn + process list) \<times> world" where
  "demo_listProcesses w =
     (if registry_down w then (Inl (Error ''Error'' ''registry unavailable''), w)
      else (Inr (registry w), w))"

definition demo_startProcess :: "start_opts \<Rightarrow> world \<Rightarrow> (exn + process) \<times> world" where
  "demo_startProcess opts w =
     (let p = \<lparr>pid = 1 + int (length (registry w)),
               command = Some (concat (so_command opts)), args = None,
               status = spawn_status w\<rparr>
      in (Inr p, w\<lparr>registry := registry w @ [p]\<rparr>))"

definition demo_mountBucket :: "bucket \<Rightarrow> string \<Rightarrow> bool \<Rightarrow> world \<Rightarrow> (exn + unit) \<times> world" where
  "demo_mountBucket b path ro w =
     (if mounter_refuses w then (Inl (Error ''MountError'' ''mount failed''), w)
      else (Inr (), w\<lparr>mounted := True\<rparr>))"

definition demo :: "world runtime" where
  "demo = \<lparr>rt_exec = demo_exec, rt_listProcesses = demo_listProcesses,
           rt_startProcess = demo_startProcess, rt_mountBucket = demo_mountBucket,
           rt_elapse = (\<lambda>ms w. w), rt_now = (\<lambda>w. ''2026-01-01T00:00:00.000Z'')\<rparr>"

text \<open>A fresh sandbox: nothing running, nothing mounted, every collaborator healthy.\<close>

definition fresh :: world where
  "fresh = \<lparr>registry = [], registry_down = False, mounted = False, mounter_refuses = False,
            rejected_cmds = [], spawn_status = ''running'',
            local_files = [''a.txt'', ''b.txt''], durable_files = [],
            copy_exit = 0, copy_stdout = ''sending incremental file list'', copy_stderr = []\<rparr>"

text \<open>Configurations.\<close>

definition no_config :: MoltbotEnv where
  "no_config = \<lparr>MOLTBOT_BUCKET = None, R2_BUCKET_NAME = None, ANTHROPIC_API_KEY = None,
                OPENAI_API_KEY = None, MOLTBOT_GATEWAY_TOKEN = None\<rparr>"

definition full_config :: MoltbotEnv where
  "full_config = \<lparr>MOLTBOT_BUCKET = Some (R2Bucket ''demo''), R2_BUCKET_NAME = Some ''demo'',
                  ANTHROPIC_API_KEY = Some ''sk-ant-1'', OPENAI_API_KEY = None,
                  MOLTBOT_GATEWAY_TOKEN = None\<rparr>"

definition gateway_process :: "int \<Rightarrow> string \<Rightarrow> process" where
  "gateway_process n st =
     \<lparr>pid = n, command = Some ''/usr/local/bin/start-openclaw.sh'', args = None, status = st\<rparr>"

text \<open>Worlds: the gateway already up; a stale entry listed before the running gateway; a
  gateway that never comes up; a registry outage; a rejected \<open>chmod\<close>; a volume mounter that
  refuses; the durable copy holding a file deleted locally; a copy that fails with its
  message on standard output; a copy whose diagnostics follow the header; a copy that fails
  with a diagnostic.\<close>

definition already_running :: world where
  "already_running = fresh\<lparr>registry := [gateway_process 8 ''running'']\<rparr>"

definition stale_then_running :: world where
  "stale_then_running =
     fresh\<lparr>registry := [gateway_process 7 ''stopped'', gateway_process 8 ''running'']\<rparr>"

definition never_up :: world where
  "never_up = fresh\<lparr>spawn_status := ''failed''\<rparr>"

definition outage :: world where
  "outage = fresh\<lparr>registry_down := True\<rparr>"

definition chmod_rejects :: world where
  "chmod_rejects = fresh\<lparr>rejected_cmds := [''chmod 777 /data/moltbot'']\<rparr>"

definition mounter_down :: world where
  "mounter_down = fresh\<lparr>mounter_refuses := True\<rparr>"

definition after_local_delete :: world where
  "after_local_delete =
     fresh\<lparr>mounted := True, local_files := [''a.txt''], durable_files := [''a.txt'', ''b.txt'']\<rparr>"

definition silent_copy_failure :: world where
  "silent_copy_failure =
     fresh\<lparr>mounted := True, durable_files := [''old.txt''], copy_exit := 23,
           copy_stdout := ''rsync error: some files could not be transferred (code 23)''\<rparr>"



section \<open>Running the code symbolically\<close>

lemmas demo_defs = demo_def demo_exec_def demo_listProcesses_def demo_startProcess_def
  demo_mountBucket_def fresh_def full_config_def no_config_def gateway_process_def ok_result_def


lemma exec_cmds_append: "exec_cmds (xs @ ys) = exec_cmds xs @ exec_cmds ys"
  by (induction xs rule: exec_cmds.induct) simp_all

lemma launch_envs_append: "launch_envs (xs @ ys) = launch_envs xs @ launch_envs ys"
  by (induction xs rule: launch_envs.induct) simp_all

lemma launch_envs_none: "\<not> list_ex is_launch tr \<Longrightarrow> launch_envs tr = []"
  by (induction tr rule: launch_envs.induct) simp_all

lemma no_launch_mem: "\<not> list_ex is_launch tr \<Longrightarrow> StartProcess opts x \<notin> set tr"
  by (auto simp: list_ex_iff)

subsection \<open>The search\<close>

lemma findExisting_run:
  "findExistingMoltbotProcess rt (w, tr) =
     (case rt_listProcesses rt w of
        (out, w') \<Rightarrow> (Inr (found_of isMoltbotProcess out), (w', tr @ [ListProcesses out])))"
  by (auto simp: findExistingMoltbotProcess_def io_catch_def io_bind_def io_return_def
        listProcesses_def found_of_def split: prod.splits sum.splits option.splits)

lemma findExisting_v1_run:
  "findExistingMoltbotProcess_v1 rt (w, tr) =
     (case rt_listProcesses rt w of
        (out, w') \<Rightarrow> (Inr (found_of isMoltbotProcess_v1 out), (w', tr @ [ListProcesses out])))"
  by (auto simp: findExistingMoltbotProcess_v1_def io_catch_def io_bind_def io_return_def
        listProcesses_def found_of_def split: prod.splits sum.splits option.splits)

lemma isRunning_found_of: "isRunning (found_of isMoltbotProcess out) = listing_running out"
  by (auto simp: isRunning_def found_of_def listing_running_def split: sum.splits option.splits)

lemma listing_running_some: "listing_running (Inr ps) \<Longrightarrow> list_ex running_gateway ps"
  by (auto simp: listing_running_def running_gateway_def list_ex_iff find_Some_iff
      split: option.splits)

lemma listing_running_Inl: "\<not> listing_running (Inl e)"
  by (simp add: listing_running_def)

subsection \<open>The mount\<close>

lemma mountR2Storage_never_raises: "\<exists>ok s'. mountR2Storage rt env s = (Inr ok, s')"
  by (auto simp: mountR2Storage_def io_catch_def io_return_def
      split: option.splits prod.splits sum.splits)

lemma mount_Inr: "mountR2Storage rt env s = (m, s') \<Longrightarrow> \<exists>ok. m = Inr ok"
  using mountR2Storage_never_raises [of rt env s] by auto

lemma mountR2Storage_log:
  "mountR2Storage rt env (w, tr) = (r, (w', tr')) \<Longrightarrow>
   \<exists>new. tr' = tr @ new \<and> set (exec_cmds new) \<subseteq> set mount_cmds \<and> \<not> list_ex is_launch new"
  by (auto simp: mountR2Storage_def io_catch_def io_bind_def io_return_def exec_def mountBucket_def
        mount_cmds_def exec_cmds_append split: option.splits prod.splits sum.splits if_splits)

lemma rsync_not_mount_cmd:
  "''rsync -av --delete /root/.openclaw/ /data/moltbot/openclaw/ 2>&1'' \<notin> set mount_cmds"
  by (simp add: mount_cmds_def)



subsection \<open>The supervisor\<close>

lemma ensure_run:
  "ensureMoltbotGateway rt env (w, tr) =
     (case rt_listProcesses rt w of
        (out0, w0) \<Rightarrow>
          if listing_running out0 then (Inr (), (w0, tr @ [ListProcesses out0]))
          else
            (case mountR2Storage rt env (w0, tr @ [ListProcesses out0]) of
               (m, (w1, tr1)) \<Rightarrow>
                 (case rt_startProcess rt
                         \<lparr>so_command = [''/usr/local/bin/start-openclaw.sh''],
                          so_env = openclawEnv env,
                          so_workingDirectory = Some ''/root/clawd''\<rparr> w1 of
                    (Inl e, w2) \<Rightarrow>
                      (Inl e, (w2, tr1 @ [StartProcess
                         \<lparr>so_command = [''/usr/local/bin/start-openclaw.sh''],
                          so_env = openclawEnv env,
                          so_workingDirectory = Some ''/root/clawd''\<rparr> (Inl e)]))
                  | (Inr p, w2) \<Rightarrow>
                      (case rt_listProcesses rt (rt_elapse rt 2000 w2) of
                         (out, w3) \<Rightarrow>
                           (if listing_running out then Inr ()
                            else Inl (Error ''Error'' ''Gateway failed to start''),
                            (w3, tr1 @ [StartProcess
                               \<lparr>so_command = [''/usr/local/bin/start-openclaw.sh''],
                                so_env = openclawEnv env,
                                so_workingDirectory = Some ''/root/clawd''\<rparr> (Inr p),
                               Delay 2000, ListProcesses out]))))))"
proof (cases "rt_listProcesses rt w")
  case (Pair out0 w0)
  show ?thesis
  proof (cases "listing_running out0")
    case True
    with Pair show ?thesis
      by (simp add: ensureMoltbotGateway_def io_bind_def io_return_def findExisting_run
          isRunning_found_of)
  next
    case False
    obtain m w1 tr1 where m: "mountR2Storage rt env (w0, tr @ [ListProcesses out0]) = (m, (w1, tr1))"
      by (metis prod.exhaust)
    then obtain ok where ok: "m = Inr ok" using mount_Inr by blast
    show ?thesis using Pair False m ok
      by (simp add: ensureMoltbotGateway_def io_bind_def io_return_def io_catch_def io_throw_def
          findExisting_run isRunning_found_of startProcess_def delay_def
          split: prod.splits sum.splits)
  qed
qed

lemma ensure_launch_shape:
  assumes "ensureMoltbotGateway rt env (w, []) = (r, (w', tr))"
    and "StartProcess opts (Inr p) \<in> set tr"
  shows "\<exists>pre out. tr = pre @ [StartProcess opts (Inr p), Delay 2000, ListProcesses out]
           \<and> (r = Inr () \<longleftrightarrow> listing_running out)
           \<and> (\<not> listing_running out \<longrightarrow> r = Inl (Error ''Error'' ''Gateway failed to start''))"
proof -
  obtain out0 w0 where l: "rt_listProcesses rt w = (out0, w0)" by (metis prod.exhaust)
  obtain m w1 tr1 where m: "mountR2Storage rt env (w0, [] @ [ListProcesses out0]) = (m, (w1, tr1))"
    by (metis prod.exhaust)
  from mountR2Storage_log [OF m] obtain new where
    n: "tr1 = ([] @ [ListProcesses out0]) @ new" "\<not> list_ex is_launch new" by blast
  then have e: "StartProcess opts (Inr p) \<notin> set tr1"
    by (simp add: no_launch_mem)
  show ?thesis
    using assms l m e unfolding ensure_run
    by (auto split: if_splits prod.splits sum.splits)
qed

lemma ensure_launch_envs:
  assumes "ensureMoltbotGateway rt env (w, []) = (r, (w', tr))"
  shows "set (launch_envs tr) \<subseteq> {openclawEnv env}"
proof -
  obtain out0 w0 where l: "rt_listProcesses rt w = (out0, w0)" by (metis prod.exhaust)
  obtain m w1 tr1 where m: "mountR2Storage rt env (w0, [] @ [ListProcesses out0]) = (m, (w1, tr1))"
    by (metis prod.exhaust)
  from mountR2Storage_log [OF m] obtain new where
    n: "tr1 = ([] @ [ListProcesses out0]) @ new" "\<not> list_ex is_launch new" by blast
  then have e: "launch_envs tr1 = []"
    by (simp add: launch_envs_append launch_envs_none)
  show ?thesis
    using assms l m e unfolding ensure_run
    by (auto simp: launch_envs_append split: if_splits prod.splits sum.splits)
qed

lemma ensure_outage_launches:
  assumes "rt_listProcesses rt w = (Inl e, w0)"
  shows "list_ex is_launch (snd (snd (ensureMoltbotGateway rt env (w, []))))"
proof -
  obtain m w1 tr1 where m: "mountR2Storage rt env (w0, [] @ [ListProcesses (Inl e)]) = (m, (w1, tr1))"
    by (metis prod.exhaust)
  show ?thesis
    using assms m unfolding ensure_run
    by (auto simp: listing_running_Inl split: prod.splits sum.splits)
qed

lemma openclawEnv_lookup:
  "map_of (openclawEnv env) ''NODE_ENV'' = Some ''production''"
  "map_of (openclawEnv env) ''PATH'' = Some ''/usr/local/bin:/usr/bin:/bin''"
  "map_of (openclawEnv env) ''HOME'' = Some ''/root''"
  "map_of (openclawEnv env) ''ANTHROPIC_API_KEY'' =
     (if truthy (ANTHROPIC_API_KEY env) then ANTHROPIC_API_KEY env else None)"
  "map_of (openclawEnv env) ''OPENAI_API_KEY'' =
     (if truthy (OPENAI_API_KEY env) then OPENAI_API_KEY env else None)"
  "map_of (openclawEnv env) ''OPENCLAW_GATEWAY_TOKEN'' =
     (if truthy (MOLTBOT_GATEWAY_TOKEN env) then MOLTBOT_GATEWAY_TOKEN env else None)"
  by (auto simp: openclawEnv_def truthy_def or_empty_def Let_def split: option.splits)

lemma openclawEnv_values: "[] \<notin> snd ` set (openclawEnv env)"
  by (auto simp: openclawEnv_def truthy_def or_empty_def Let_def split: option.splits)

lemma openclawEnv_keys: "distinct (map fst (openclawEnv env))"
  by (auto simp: openclawEnv_def truthy_def or_empty_def Let_def split: option.splits)

subsection \<open>The sync\<close>

lemma sync_run:
  fixes rt :: "'w runtime"
  defines "failure \<equiv> \<lambda>e. \<lparr>success = False, error = Some ''Sync failed'',
                            details = Some (message_or_unknown e), lastSync = None\<rparr>"
  assumes name: "truthy (R2_BUCKET_NAME env)"
  shows "syncToR2 rt env (w, tr) =
     (case rt_exec rt ''mount | grep /data/moltbot || echo \"not mounted\"'' w of
        (Inl e, w1) \<Rightarrow>
          (Inr (failure e),
           (w1, tr @ [Exec ''mount | grep /data/moltbot || echo \"not mounted\"'' (Inl e)]))
      | (Inr chk, w1) \<Rightarrow>
          (case (if str_includes (stdout chk) ''not mounted'' then mountR2Storage rt env
                 else io_return True)
                  (w1, tr @ [Exec ''mount | grep /data/moltbot || echo \"not mounted\"'' (Inr chk)]) of
             (m, (w2, tr2)) \<Rightarrow>
               if m \<noteq> Inr True then
                 (Inr \<lparr>success = False, error = Some ''R2 storage not mounted'',
                       details = Some ''Failed to mount R2 bucket'', lastSync = None\<rparr>, (w2, tr2))
               else
                 (case rt_exec rt ''mkdir -p /root/.openclaw'' w2 of
                    (Inl e, w3) \<Rightarrow>
                      (Inr (failure e), (w3, tr2 @ [Exec ''mkdir -p /root/.openclaw'' (Inl e)]))
                  | (Inr x, w3) \<Rightarrow>
                      (case rt_exec rt ''mkdir -p /data/moltbot/openclaw'' w3 of
                         (Inl e, w4) \<Rightarrow>
                           (Inr (failure e),
                            (w4, tr2 @ [Exec ''mkdir -p /root/.openclaw'' (Inr x),
                                        Exec ''mkdir -p /data/moltbot/openclaw'' (Inl e)]))
                       | (Inr y, w4) \<Rightarrow>
                           (case rt_exec rt
                                   ''rsync -av --delete /root/.openclaw/ /data/moltbot/openclaw/ 2>&1''
                                   w4 of
                              (c, w5) \<Rightarrow>
                                (Inr (case c of
                                        Inl e \<Rightarrow> failure e
                                      | Inr r \<Rightarrow>
                                          if stderr r \<noteq> []
                                             \<and> \<not> str_includes (stderr r) ''sending incremental file list''
                                          then \<lparr>success = False, error = Some ''Sync failed'',
                                                details = Some (stderr r), lastSync = None\<rparr>
                                          else \<lparr>success = True, error = None, details = None,
                                                lastSync = Some (rt_now rt w5)\<rparr>),
                                 (w5, tr2 @ [Exec ''mkdir -p /root/.openclaw'' (Inr x),
                                             Exec ''mkdir -p /data/moltbot/openclaw'' (Inr y),
                                             Exec ''rsync -av --delete /root/.openclaw/ /data/moltbot/openclaw/ 2>&1'' c])))))))"
proof (cases "rt_exec rt ''mount | grep /data/moltbot || echo \"not mounted\"'' w")
  case (Pair c0 w1)
  show ?thesis
  proof (cases c0)
    case (Inl e)
    with Pair name show ?thesis
      by (simp add: syncToR2_def io_bind_def io_catch_def io_return_def exec_def failure_def)
  next
    case (Inr chk)
    obtain m w2 tr2 where m:
      "(if str_includes (stdout chk) ''not mounted'' then mountR2Storage rt env else io_return True)
         (w1, tr @ [Exec ''mount | grep /data/moltbot || echo \"not mounted\"'' (Inr chk)])
       = (m, (w2, tr2))"
      by (metis prod.exhaust)
    have "\<exists>ok. m = Inr ok"
    proof (cases "str_includes (stdout chk) ''not mounted''")
      case True
      with m show ?thesis by (simp add: mount_Inr)
    next
      case False
      with m show ?thesis by (auto simp: io_return_def)
    qed
    then obtain ok where ok: "m = Inr ok" by blast
    show ?thesis
      using Pair Inr name m ok
      by (simp add: syncToR2_def io_bind_def io_catch_def io_return_def exec_def now_def failure_def
          split: prod.splits sum.splits)
  qed
qed




lemma sync_success_last:
  assumes run: "syncToR2 rt env (w, []) = (Inr res, (w', tr))" and ok: "success res"
  shows "\<exists>u r. rt_exec rt ''rsync -av --delete /root/.openclaw/ /data/moltbot/openclaw/ 2>&1'' u
                 = (Inr r, w')
           \<and> tr \<noteq> []
           \<and> last tr = Exec ''rsync -av --delete /root/.openclaw/ /data/moltbot/openclaw/ 2>&1'' (Inr r)"
proof -
  have name: "truthy (R2_BUCKET_NAME env)"
    using run ok by (auto simp: syncToR2_def io_catch_def io_return_def split: if_splits)
  obtain c0 w1 where c0: "rt_exec rt ''mount | grep /data/moltbot || echo \"not mounted\"'' w = (c0, w1)"
    by (metis prod.exhaust)
  show ?thesis
  proof (cases c0)
    case (Inl e)
    with run ok c0 show ?thesis unfolding sync_run [OF name] by auto
  next
    case (Inr chk)
    obtain m w2 tr2 where m:
      "(if str_includes (stdout chk) ''not mounted'' then mountR2Storage rt env else io_return True)
         (w1, [] @ [Exec ''mount | grep /data/moltbot || echo \"not mounted\"'' (Inr chk)])
       = (m, (w2, tr2))"
      by (metis prod.exhaust)
    show ?thesis
      using run ok c0 Inr m unfolding sync_run [OF name]
      by (auto split: if_splits prod.splits sum.splits)
  qed
qed

section \<open>The shorter variants\<close>


lemma mountR2Storage_r2_not_configured:
  "MOLTBOT_BUCKET env = None \<or> \<not> truthy (R2_BUCKET_NAME env) \<Longrightarrow>
   mountR2Storage_r2 rt env s = (Inr (), s)"
  by (auto simp: mountR2Storage_r2_def io_return_def split: option.splits)

lemma ensure_v1_run:
  fixes rt :: "'w runtime"
  defines "opts \<equiv> \<lambda>env. \<lparr>so_command = [''/usr/local/bin/start-openclaw.sh''],
                          so_env = [(''ANTHROPIC_API_KEY'', or_empty (ANTHROPIC_API_KEY env)),
                                    (''NODE_ENV'', ''production'')],
                          so_workingDirectory = None\<rparr>"
  shows "\<exists>w0 tr0. \<not> list_ex is_launch tr0 \<and> (\<forall>out. ListProcesses out \<notin> set tr0) \<and>
     ensureMoltbotGateway_v1 rt env (w, []) =
       (case rt_listProcesses rt w0 of
          (out, w1) \<Rightarrow>
            if isRunning (found_of isMoltbotProcess_v1 out)
            then (Inr (), (w1, tr0 @ [ListProcesses out]))
            else
              (case rt_startProcess rt (opts env) w1 of
                 (r, w2) \<Rightarrow>
                   ((case r of Inl e \<Rightarrow> Inl e | Inr p \<Rightarrow> Inr ()),
                    (w2, tr0 @ [ListProcesses out, StartProcess (opts env) r]))))"
proof -
  define pre :: "(unit, 'w) io" where
    "pre = (case MOLTBOT_BUCKET env of
          None \<Rightarrow> io_return ()
        | Some b \<Rightarrow>
            if truthy (R2_BUCKET_NAME env) then
              io_catch
                (io_bind (exec rt ''mkdir -p /data/moltbot && chmod 777 /data/moltbot'') (\<lambda>_.
                 mountBucket rt b ''/data/moltbot'' False))
                (\<lambda>error. io_return ())
            else io_return ())"
  have "\<exists>w0 tr0. pre (w, []) = (Inr (), (w0, tr0)) \<and> \<not> list_ex is_launch tr0
          \<and> (\<forall>out. ListProcesses out \<notin> set tr0)"
    by (auto simp: pre_def io_bind_def io_catch_def io_return_def exec_def mountBucket_def
        split: option.splits prod.splits sum.splits)
  then obtain w0 tr0 where p: "pre (w, []) = (Inr (), (w0, tr0))" "\<not> list_ex is_launch tr0"
    "\<forall>out. ListProcesses out \<notin> set tr0" by blast
  have "ensureMoltbotGateway_v1 rt env (w, []) =
       (case rt_listProcesses rt w0 of
          (out, w1) \<Rightarrow>
            if isRunning (found_of isMoltbotProcess_v1 out)
            then (Inr (), (w1, tr0 @ [ListProcesses out]))
            else
              (case rt_startProcess rt (opts env) w1 of
                 (r, w2) \<Rightarrow>
                   ((case r of Inl e \<Rightarrow> Inl e | Inr p \<Rightarrow> Inr ()),
                    (w2, tr0 @ [ListProcesses out, StartProcess (opts env) r]))))"
    using p(1) unfolding ensureMoltbotGateway_v1_def pre_def [symmetric] opts_def
    by (simp add: io_bind_def io_return_def findExisting_v1_run startProcess_def
        split: prod.splits sum.splits)
  with p(2,3) show ?thesis by blast
qed

lemma ensure_v1_facts:
  assumes "ensureMoltbotGateway_v1 rt env (w, []) = (r, (w', tr))"
  shows "set (launch_envs tr)
           \<subseteq> {[(''ANTHROPIC_API_KEY'', or_empty (ANTHROPIC_API_KEY env)), (''NODE_ENV'', ''production'')]}"
    and "StartProcess opts (Inr p) \<in> set tr \<longrightarrow> r = Inr () \<and> last tr = StartProcess opts (Inr p)"
    and "ListProcesses (Inl e) \<in> set tr \<longrightarrow> list_ex is_launch tr"
proof -
  from ensure_v1_run [of rt env w] obtain w0 tr0 where
    a: "\<not> list_ex is_launch tr0" "\<forall>out. ListProcesses out \<notin> set tr0" and
    b: "ensureMoltbotGateway_v1 rt env (w, []) =
       (case rt_listProcesses rt w0 of
          (out, w1) \<Rightarrow>
            if isRunning (found_of isMoltbotProcess_v1 out)
            then (Inr (), (w1, tr0 @ [ListProcesses out]))
            else
              (case rt_startProcess rt
                      \<lparr>so_command = [''/usr/local/bin/start-openclaw.sh''],
                       so_env = [(''ANTHROPIC_API_KEY'', or_empty (ANTHROPIC_API_KEY env)),
                                 (''NODE_ENV'', ''production'')],
                       so_workingDirectory = None\<rparr> w1 of
                 (r, w2) \<Rightarrow>
                   ((case r of Inl e \<Rightarrow> Inl e | Inr p \<Rightarrow> Inr ()),
                    (w2, tr0 @ [ListProcesses out, StartProcess
                      \<lparr>so_command = [''/usr/local/bin/start-openclaw.sh''],
                       so_env = [(''ANTHROPIC_API_KEY'', or_empty (ANTHROPIC_API_KEY env)),
                                 (''NODE_ENV'', ''production'')],
                       so_workingDirectory = None\<rparr> r]))))"
    by blast
  have c: "StartProcess opts (Inr p) \<notin> set tr0" using a(1) by (simp add: no_launch_mem)
  show "set (launch_envs tr)
           \<subseteq> {[(''ANTHROPIC_API_KEY'', or_empty (ANTHROPIC_API_KEY env)), (''NODE_ENV'', ''production'')]}"
    using assms a(1) unfolding b
    by (auto simp: launch_envs_append launch_envs_none split: if_splits prod.splits)
  show "StartProcess opts (Inr p) \<in> set tr \<longrightarrow> r = Inr () \<and> last tr = StartProcess opts (Inr p)"
    using assms c unfolding b
    by (auto split: if_splits prod.splits sum.splits)
  show "ListProcesses (Inl e) \<in> set tr \<longrightarrow> list_ex is_launch tr"
    using assms a(2) unfolding b
    by (auto simp: isRunning_def found_of_def split: if_splits prod.splits sum.splits)
qed


lemma syncToR2_v1_run:
  "truthy (R2_BUCKET_NAME env) \<Longrightarrow>
   syncToR2_v1 rt env (w, tr) =
     (case rt_exec rt ''rsync -av /root/.openclaw/ /data/moltbot/openclaw/ 2>&1'' w of
        (c, w1) \<Rightarrow>
          (Inr (case c of
                  Inl e \<Rightarrow> \<lparr>success = False, error = Some (String_of e), details = None,
                            lastSync = None\<rparr>
                | Inr r \<Rightarrow> \<lparr>success = True, error = None, details = None, lastSync = None\<rparr>),
           (w1, tr @ [Exec ''rsync -av /root/.openclaw/ /data/moltbot/openclaw/ 2>&1'' c])))"
  by (simp add: syncToR2_v1_def io_bind_def io_catch_def io_return_def exec_def
      split: prod.splits sum.splits)

lemma ensure_first_match_running:
  assumes "rt_listProcesses rt w = (Inr ps, w')"
    and "find isMoltbotProcess ps = Some p"
    and "status p = ''running''"
  shows "ensureMoltbotGateway rt env (w, []) = (Inr (), (w', [ListProcesses (Inr ps)]))"
  using assms by (simp add: ensure_run listing_running_def)

lemma sync_unavailable:
  assumes "truthy (R2_BUCKET_NAME env)"
    and "fst (exec rt ''mount | grep /data/moltbot || echo \"not mounted\"'' (w, [])) = Inr chk"
    and "str_includes (stdout chk) ''not mounted''"
    and "fst (mountR2Storage rt env
                (snd (exec rt ''mount | grep /data/moltbot || echo \"not mounted\"'' (w, []))))
         = Inr False"
  shows "fst (syncToR2 rt env (w, []))
           = Inr \<lparr>success = False, error = Some ''R2 storage not mounted'',
                  details = Some ''Failed to mount R2 bucket'', lastSync = None\<rparr>
       \<and> snd (syncToR2 rt env (w, []))
           = snd (mountR2Storage rt env
                    (snd (exec rt ''mount | grep /data/moltbot || echo \"not mounted\"'' (w, []))))
       \<and> ''rsync -av --delete /root/.openclaw/ /data/moltbot/openclaw/ 2>&1''
           \<notin> set (exec_cmds (snd (snd (syncToR2 rt env (w, [])))))"
proof -
  obtain c0 w1 where c0: "rt_exec rt ''mount | grep /data/moltbot || echo \"not mounted\"'' w = (c0, w1)"
    by (metis prod.exhaust)
  with assms(2) have c: "c0 = Inr chk" by (simp add: exec_def)
  obtain m w2 tr2 where m:
    "mountR2Storage rt env
       (w1, [] @ [Exec ''mount | grep /data/moltbot || echo \"not mounted\"'' (Inr chk)]) = (m, (w2, tr2))"
    by (metis prod.exhaust)
  with assms(4) c0 c have f: "m = Inr False" by (simp add: exec_def)
  from mountR2Storage_log [OF m] obtain new where
    n: "tr2 = ([] @ [Exec ''mount | grep /data/moltbot || echo \"not mounted\"'' (Inr chk)]) @ new"
       "set (exec_cmds new) \<subseteq> set mount_cmds" by blast
  have a: "''rsync -av --delete /root/.openclaw/ /data/moltbot/openclaw/ 2>&1'' \<notin> set (exec_cmds tr2)"
    using n rsync_not_mount_cmd by auto
  have b: "syncToR2 rt env (w, []) =
           (Inr \<lparr>success = False, error = Some ''R2 storage not mounted'',
                 details = Some ''Failed to mount R2 bucket'', lastSync = None\<rparr>, (w2, tr2))"
    using c0 c m f assms(3) unfolding sync_run [OF assms(1)] by simp
  from a b c0 c m show ?thesis by (simp add: exec_def)
qed

lemma launch_verified:
  assumes "ensureMoltbotGateway rt env (w, []) = (r, (w', tr))"
    and "StartProcess opts (Inr p) \<in> set tr"
  shows "\<exists>pre out. tr = pre @ [StartProcess opts (Inr p), Delay 2000, ListProcesses out]
           \<and> ((\<forall>ps. out = Inr ps \<longrightarrow> \<not> list_ex running_gateway ps)
                \<longrightarrow> r = Inl (Error ''Error'' ''Gateway failed to start''))
           \<and> (r = Inr () \<longrightarrow> (\<exists>ps. out = Inr ps \<and> list_ex running_gateway ps))
           \<and> (r = Inr () \<or> r = Inl (Error ''Error'' ''Gateway failed to start''))"
proof -
  from ensure_launch_shape [OF assms] obtain pre out where
    s: "tr = pre @ [StartProcess opts (Inr p), Delay 2000, ListProcesses out]"
       "r = Inr () \<longleftrightarrow> listing_running out"
       "\<not> listing_running out \<longrightarrow> r = Inl (Error ''Error'' ''Gateway failed to start'')"
    by blast
  have a: "(\<forall>ps. out = Inr ps \<longrightarrow> \<not> list_ex running_gateway ps) \<longrightarrow> \<not> listing_running out"
    using listing_running_some listing_running_Inl by (cases out) auto
  have b: "listing_running out \<longrightarrow> (\<exists>ps. out = Inr ps \<and> list_ex running_gateway ps)"
    using listing_running_some listing_running_Inl by (cases out) auto
  from s a b show ?thesis by blast
qed

lemma launch_env_complete:
  assumes "ensureMoltbotGateway rt env (w, []) = (r, (w', tr))"
    and "e \<in> set (launch_envs tr)"
  shows "e = openclawEnv env
       \<and> map_of e ''NODE_ENV'' = Some ''production''
       \<and> map_of e ''PATH'' = Some ''/usr/local/bin:/usr/bin:/bin''
       \<and> map_of e ''HOME'' = Some ''/root''
       \<and> map_of e ''ANTHROPIC_API_KEY''
           = (if truthy (ANTHROPIC_API_KEY env) then ANTHROPIC_API_KEY env else None)
       \<and> map_of e ''OPENAI_API_KEY''
           = (if truthy (OPENAI_API_KEY env) then OPENAI_API_KEY env else None)
       \<and> map_of e ''OPENCLAW_GATEWAY_TOKEN''
           = (if truthy (MOLTBOT_GATEWAY_TOKEN env) then MOLTBOT_GATEWAY_TOKEN env else None)
       \<and> [] \<notin> snd ` set e
       \<and> distinct (map fst e)"
proof -
  from ensure_launch_envs [OF assms(1)] assms(2) have "e = openclawEnv env" by auto
  then show ?thesis
    by (simp only: openclawEnv_lookup openclawEnv_values openclawEnv_keys simp_thms)
qed

section \<open>The claims of the specification\<close>

text \<open>
  Where the implementations differ, a claim is stated for each: \<open>ensureMoltbotGateway\<close>,
  \<open>mountR2Storage\<close> and \<open>syncToR2\<close> are those of the complete gateway module,
  \<open>ensureMoltbotGateway_v1\<close> and \<open>syncToR2_v1\<close> those of the shorter gateway module, and
  \<open>mountR2Storage_r2\<close> is the export of \<open>gateway/r2.ts\<close>.
\<close>

subsection \<open>Gateway supervisor\<close>

text \<open>
  Claim C1 is not met by the code. In the complete module \<open>find\<close> takes the first process
  that matches the signature, whatever its status, and only that one's status is read, by
  the check (\<open>// Check if already running\<close>) and by the verification (\<open>// Verify it's
  running\<close>) alike. With a stopped entry of an earlier gateway listed before the running
  one, a matching process is running, yet the code calls the volume mounter, launches a
  second gateway and then throws \<open>Gateway failed to start\<close> with two gateways running. The
  shorter module attempts the mount before it lists the processes: with the gateway
  running it returns without a launch but after a call to the volume mounter.
\<close>

theorem ensure_stale_entry_duplicate:
  "list_ex running_gateway (registry stale_then_running)
   \<and> list_ex is_mount (snd (snd (ensureMoltbotGateway demo full_config (stale_then_running, []))))
   \<and> list_ex is_launch (snd (snd (ensureMoltbotGateway demo full_config (stale_then_running, []))))
   \<and> fst (ensureMoltbotGateway demo full_config (stale_then_running, []))
       = Inl (Error ''Error'' ''Gateway failed to start'')
   \<and> registry (fst (snd (ensureMoltbotGateway demo full_config (stale_then_running, []))))
       = [gateway_process 7 ''stopped'', gateway_process 8 ''running'', gateway_process 3 ''running'']
   \<and> list_ex running_gateway (registry already_running)
   \<and> fst (ensureMoltbotGateway_v1 demo full_config (already_running, [])) = Inr ()
   \<and> list_ex is_mount (snd (snd (ensureMoltbotGateway_v1 demo full_config (already_running, []))))"
  by code_simp

text \<open>
  Claim C2, as amended. Every environment that the \<open>ensureMoltbotGateway\<close> of the complete
  module passes to \<open>startProcess\<close> is the assembled \<open>openclawEnv\<close>: it holds
  \<open>NODE_ENV=production\<close>, the restricted \<open>PATH\<close> and \<open>HOME\<close>; it holds \<open>ANTHROPIC_API_KEY\<close>,
  \<open>OPENAI_API_KEY\<close> and the gateway token key \<open>OPENCLAW_GATEWAY_TOKEN\<close> exactly when the
  configuration has a non-empty value for them (JavaScript truthiness: an empty string
  counts as absent), with that value; no key has an empty value, and no key occurs twice.
  Every environment that the \<open>ensureMoltbotGateway\<close> of the shorter module passes is
  \<open>ANTHROPIC_API_KEY\<close>, with the configured value or the empty string when there is none,
  and \<open>NODE_ENV=production\<close>, nothing else.
\<close>

theorem launch_environment:
  "(ensureMoltbotGateway rt env (w, []) = (r, (w', tr)) \<and> e \<in> set (launch_envs tr) \<longrightarrow>
      e = openclawEnv env
      \<and> map_of e ''NODE_ENV'' = Some ''production''
      \<and> map_of e ''PATH'' = Some ''/usr/local/bin:/usr/bin:/bin''
      \<and> map_of e ''HOME'' = Some ''/root''
      \<and> map_of e ''ANTHROPIC_API_KEY''
          = (if truthy (ANTHROPIC_API_KEY env) then ANTHROPIC_API_KEY env else None)
      \<and> map_of e ''OPENAI_API_KEY''
          = (if truthy (OPENAI_API_KEY env) then OPENAI_API_KEY env else None)
      \<and> map_of e ''OPENCLAW_GATEWAY_TOKEN''
          = (if truthy (MOLTBOT_GATEWAY_TOKEN env) then MOLTBOT_GATEWAY_TOKEN env else None)
      \<and> [] \<notin> snd ` set e
      \<and> distinct (map fst e))
   \<and> (ensureMoltbotGateway_v1 rt env (w, []) = (r1, (w1, tr1)) \<and> e1 \<in> set (launch_envs tr1) \<longrightarrow>
      e1 = [(''ANTHROPIC_API_KEY'', or_empty (ANTHROPIC_API_KEY env)), (''NODE_ENV'', ''production'')])"
  using launch_env_complete [of rt env w r w' tr e] ensure_v1_facts(1) [of rt env w r1 w1 tr1]
  by blast

text \<open>
  The amended C2 on launches with only the Anthropic key configured (complete module: no
  \<open>OPENAI_API_KEY\<close> entry) and with no key configured (shorter module).
\<close>

theorem launch_environment_witness:
  "openclawEnv full_config
     \<in> set (launch_envs (snd (snd (ensureMoltbotGateway demo full_config (fresh, [])))))
   \<and> map_of (openclawEnv full_config) ''NODE_ENV'' = Some ''production''
   \<and> map_of (openclawEnv full_config) ''ANTHROPIC_API_KEY'' = Some ''sk-ant-1''
   \<and> map_of (openclawEnv full_config) ''OPENAI_API_KEY'' = None
   \<and> launch_envs (snd (snd (ensureMoltbotGateway_v1 demo full_config (fresh, []))))
       = [[(''ANTHROPIC_API_KEY'', ''sk-ant-1''), (''NODE_ENV'', ''production'')]]"
proof -
  have run: "ensureMoltbotGateway demo full_config (fresh, [])
               = (fst (ensureMoltbotGateway demo full_config (fresh, [])),
                  (fst (snd (ensureMoltbotGateway demo full_config (fresh, []))),
                   snd (snd (ensureMoltbotGateway demo full_config (fresh, [])))))"
    by simp
  have run1: "ensureMoltbotGateway_v1 demo full_config (fresh, [])
               = (fst (ensureMoltbotGateway_v1 demo full_config (fresh, [])),
                  (fst (snd (ensureMoltbotGateway_v1 demo full_config (fresh, []))),
                   snd (snd (ensureMoltbotGateway_v1 demo full_config (fresh, [])))))"
    by simp
  have launched: "openclawEnv full_config
     \<in> set (launch_envs (snd (snd (ensureMoltbotGateway demo full_config (fresh, [])))))"
    by code_simp
  have launched1: "launch_envs (snd (snd (ensureMoltbotGateway_v1 demo full_config (fresh, []))))
       = [[(''ANTHROPIC_API_KEY'', ''sk-ant-1''), (''NODE_ENV'', ''production'')]]"
    by code_simp
  from launch_environment [of demo full_config fresh
      "fst (ensureMoltbotGateway demo full_config (fresh, []))"
      "fst (snd (ensureMoltbotGateway demo full_config (fresh, [])))"
      "snd (snd (ensureMoltbotGateway demo full_config (fresh, [])))"
      "openclawEnv full_config"
      "fst (ensureMoltbotGateway_v1 demo full_config (fresh, []))"
      "fst (snd (ensureMoltbotGateway_v1 demo full_config (fresh, [])))"
      "snd (snd (ensureMoltbotGateway_v1 demo full_config (fresh, [])))"
      "[(''ANTHROPIC_API_KEY'', ''sk-ant-1''), (''NODE_ENV'', ''production'')]"]
    run run1 launched launched1
  show ?thesis by (simp add: truthy_def full_config_def)
qed

text \<open>
  C2 as stated fails on the shorter module: with no key configured it launches with
  \<open>ANTHROPIC_API_KEY\<close> set to the empty string, and with neither \<open>PATH\<close> nor \<open>HOME\<close>.
\<close>

theorem launch_environment_counterexample:
  "ANTHROPIC_API_KEY no_config = None
   \<and> launch_envs (snd (snd (ensureMoltbotGateway_v1 demo no_config (fresh, []))))
       = [[(''ANTHROPIC_API_KEY'', []), (''NODE_ENV'', ''production'')]]"
  by code_simp

text \<open>
  Claim C3, as amended. Whenever \<open>startProcess\<close> has returned in a run of the
  \<open>ensureMoltbotGateway\<close> of the complete module, the run ends with the launch, the settle
  delay of 2000 ms and one more listing of the registry, in this order. If that listing
  fails or shows no process that matches the signature with status \<open>running\<close>, the run
  throws \<open>Error('Gateway failed to start')\<close> (the specification's \<open>GatewayStartError\<close>); it
  returns normally only if the listing shows such a process, and it ends in no other way.
  Whenever \<open>startProcess\<close> has returned in a run of the \<open>ensureMoltbotGateway\<close> of the
  shorter module, the launch is the last thing the run does and it returns normally.
\<close>

theorem launch_is_verified:
  "(ensureMoltbotGateway rt env (w, []) = (r, (w', tr)) \<and> StartProcess opts (Inr p) \<in> set tr \<longrightarrow>
      (\<exists>pre out. tr = pre @ [StartProcess opts (Inr p), Delay 2000, ListProcesses out]
         \<and> ((\<forall>ps. out = Inr ps \<longrightarrow> \<not> list_ex running_gateway ps)
              \<longrightarrow> r = Inl (Error ''Error'' ''Gateway failed to start''))
         \<and> (r = Inr () \<longrightarrow> (\<exists>ps. out = Inr ps \<and> list_ex running_gateway ps))
         \<and> (r = Inr () \<or> r = Inl (Error ''Error'' ''Gateway failed to start''))))
   \<and> (ensureMoltbotGateway_v1 rt env (w, []) = (r1, (w1, tr1))
        \<and> StartProcess opts1 (Inr p1) \<in> set tr1 \<longrightarrow>
      r1 = Inr () \<and> last tr1 = StartProcess opts1 (Inr p1))"
  using launch_verified [of rt env w r w' tr opts p]
    ensure_v1_facts(2) [of rt env w r1 w1 tr1 opts1 p1]
  by blast

text \<open>
  The amended C3 on a sandbox whose launched process shows up as \<open>failed\<close>: the complete
  module throws, the shorter one returns.
\<close>

theorem launch_is_verified_witness:
  "StartProcess
     \<lparr>so_command = [''/usr/local/bin/start-openclaw.sh''], so_env = openclawEnv no_config,
      so_workingDirectory = Some ''/root/clawd''\<rparr>
     (Inr (gateway_process 1 ''failed''))
     \<in> set (snd (snd (ensureMoltbotGateway demo no_config (never_up, []))))
   \<and> fst (ensureMoltbotGateway demo no_config (never_up, []))
       = Inl (Error ''Error'' ''Gateway failed to start'')
   \<and> StartProcess
     \<lparr>so_command = [''/usr/local/bin/start-openclaw.sh''],
      so_env = [(''ANTHROPIC_API_KEY'', []), (''NODE_ENV'', ''production'')],
      so_workingDirectory = None\<rparr>
     (Inr (gateway_process 1 ''failed''))
     \<in> set (snd (snd (ensureMoltbotGateway_v1 demo no_config (never_up, []))))
   \<and> fst (ensureMoltbotGateway_v1 demo no_config (never_up, [])) = Inr ()"
proof -
  have run: "ensureMoltbotGateway demo no_config (never_up, [])
               = (fst (ensureMoltbotGateway demo no_config (never_up, [])),
                  (fst (snd (ensureMoltbotGateway demo no_config (never_up, []))),
                   snd (snd (ensureMoltbotGateway demo no_config (never_up, [])))))"
    by simp
  have run1: "ensureMoltbotGateway_v1 demo no_config (never_up, [])
               = (fst (ensureMoltbotGateway_v1 demo no_config (never_up, [])),
                  (fst (snd (ensureMoltbotGateway_v1 demo no_config (never_up, []))),
                   snd (snd (ensureMoltbotGateway_v1 demo no_config (never_up, [])))))"
    by simp
  have launched: "StartProcess
     \<lparr>so_command = [''/usr/local/bin/start-openclaw.sh''], so_env = openclawEnv no_config,
      so_workingDirectory = Some ''/root/clawd''\<rparr>
     (Inr (gateway_process 1 ''failed''))
     \<in> set (snd (snd (ensureMoltbotGateway demo no_config (never_up, []))))"
    by code_simp
  have failed: "fst (ensureMoltbotGateway demo no_config (never_up, []))
       = Inl (Error ''Error'' ''Gateway failed to start'')"
    by code_simp
  have launched1: "StartProcess
     \<lparr>so_command = [''/usr/local/bin/start-openclaw.sh''],
      so_env = [(''ANTHROPIC_API_KEY'', []), (''NODE_ENV'', ''production'')],
      so_workingDirectory = None\<rparr>
     (Inr (gateway_process 1 ''failed''))
     \<in> set (snd (snd (ensureMoltbotGateway_v1 demo no_config (never_up, []))))"
    by code_simp
  from launch_is_verified [of demo no_config never_up
      "fst (ensureMoltbotGateway demo no_config (never_up, []))"
      "fst (snd (ensureMoltbotGateway demo no_config (never_up, [])))"
      "snd (snd (ensureMoltbotGateway demo no_config (never_up, [])))"
      "\<lparr>so_command = [''/usr/local/bin/start-openclaw.sh''], so_env = openclawEnv no_config,
        so_workingDirectory = Some ''/root/clawd''\<rparr>"
      "gateway_process 1 ''failed''"
      "fst (ensureMoltbotGateway_v1 demo no_config (never_up, []))"
      "fst (snd (ensureMoltbotGateway_v1 demo no_config (never_up, [])))"
      "snd (snd (ensureMoltbotGateway_v1 demo no_config (never_up, [])))"
      "\<lparr>so_command = [''/usr/local/bin/start-openclaw.sh''],
        so_env = [(''ANTHROPIC_API_KEY'', []), (''NODE_ENV'', ''production'')],
        so_workingDirectory = None\<rparr>"
      "gateway_process 1 ''failed''"]
    run run1 launched failed launched1
  show ?thesis by blast
qed

text \<open>
  C3 as stated fails on the shorter module: the launched process shows up as \<open>failed\<close>, no
  matching process is running afterwards, and the run returns normally right after the
  launch, without a delay and without another listing.
\<close>

theorem launch_is_verified_counterexample:
  "fst (ensureMoltbotGateway_v1 demo no_config (never_up, [])) = Inr ()
   \<and> last (snd (snd (ensureMoltbotGateway_v1 demo no_config (never_up, []))))
       = StartProcess
           \<lparr>so_command = [''/usr/local/bin/start-openclaw.sh''],
            so_env = [(''ANTHROPIC_API_KEY'', []), (''NODE_ENV'', ''production'')],
            so_workingDirectory = None\<rparr>
           (Inr (gateway_process 1 ''failed''))
   \<and> registry (fst (snd (ensureMoltbotGateway_v1 demo no_config (never_up, []))))
       = [gateway_process 1 ''failed'']"
  by code_simp

text \<open>
  Claim C10. \<open>findExistingMoltbotProcess\<close> always returns and never throws. When the listing
  of the registry fails it returns \<open>null\<close>, which is also what it returns for a listing
  without a matching process; \<open>ensureMoltbotGateway\<close> then goes on to call \<open>startProcess\<close>.
\<close>

theorem findExisting_total:
  "(\<exists>x s'. findExistingMoltbotProcess rt s = (Inr x, s'))
   \<and> (rt_listProcesses rt w = (Inl e, w') \<longrightarrow>
        findExistingMoltbotProcess rt (w, tr) = (Inr None, (w', tr @ [ListProcesses (Inl e)]))
        \<and> list_ex is_launch (snd (snd (ensureMoltbotGateway rt env (w, [])))))
   \<and> (rt_listProcesses rt w = (Inr ps, w') \<and> \<not> list_ex isMoltbotProcess ps \<longrightarrow>
        findExistingMoltbotProcess rt (w, tr) = (Inr None, (w', tr @ [ListProcesses (Inr ps)])))"
proof -
  have a: "\<exists>x s'. findExistingMoltbotProcess rt s = (Inr x, s')"
    by (cases s) (auto simp: findExisting_run split: prod.splits)
  have b: "find isMoltbotProcess ps = None" if "\<not> list_ex isMoltbotProcess ps"
    using that by (simp add: find_None_iff list_ex_iff)
  show ?thesis
    using a b ensure_outage_launches [of rt w e w' env]
    by (auto simp: findExisting_run found_of_def)
qed

text \<open>C10 on a sandbox whose registry is down.\<close>

theorem findExisting_total_witness:
  "findExistingMoltbotProcess demo (outage, [])
     = (Inr None, (outage, [ListProcesses (Inl (Error ''Error'' ''registry unavailable''))]))
   \<and> list_ex is_launch (snd (snd (ensureMoltbotGateway demo no_config (outage, []))))"
  using findExisting_total [of demo "(outage, [])" outage "Error ''Error'' ''registry unavailable''"
      outage "[]" no_config "[]"]
  by (simp add: demo_def demo_listProcesses_def outage_def fresh_def)

subsection \<open>Storage mount manager\<close>




text \<open>
  Claim C5, as amended. When the bucket binding is absent or the bucket name is absent (or
  empty), both variants return at once and leave the sandbox and the log untouched, with no
  \<open>exec\<close> and no \<open>mountBucket\<close> call: the boolean \<open>mountR2Storage\<close> of the complete gateway
  module returns \<open>false\<close>, and the \<open>mountR2Storage\<close> of \<open>gateway/r2.ts\<close>, which has no return
  value, resolves to \<open>undefined\<close>.
\<close>

theorem mount_not_configured:
  "MOLTBOT_BUCKET env = None \<or> \<not> truthy (R2_BUCKET_NAME env) \<Longrightarrow>
   mountR2Storage rt env s = (Inr False, s) \<and> mountR2Storage_r2 rt env s = (Inr (), s)"
  by (auto simp: mountR2Storage_def mountR2Storage_r2_def io_return_def split: option.splits)

text \<open>The amended C5 on a configuration with the handle but an empty name.\<close>

theorem mount_not_configured_witness:
  "mountR2Storage demo (full_config\<lparr>R2_BUCKET_NAME := Some []\<rparr>) (fresh, []) = (Inr False, (fresh, []))
   \<and> mountR2Storage_r2 demo (full_config\<lparr>R2_BUCKET_NAME := Some []\<rparr>) (fresh, [])
       = (Inr (), (fresh, []))"
  using mount_not_configured [of "full_config\<lparr>R2_BUCKET_NAME := Some []\<rparr>" demo "(fresh, [])"]
  by (simp add: truthy_def)

text \<open>
  C5 as stated fails on the \<open>mountR2Storage\<close> of \<open>gateway/r2.ts\<close> in its first half: on the
  empty configuration it makes no call, but what it returns is no \<open>false\<close>; it resolves to
  \<open>undefined\<close>, as it does after a mount that went well.
\<close>

theorem mount_not_configured_counterexample:
  "mountR2Storage_r2 demo no_config (fresh, []) = (Inr (), (fresh, []))
   \<and> fst (mountR2Storage_r2 demo full_config (fresh, [])) = Inr ()
   \<and> list_ex is_mount (snd (snd (mountR2Storage_r2 demo full_config (fresh, []))))"
  by code_simp

subsection \<open>Sync reconciler\<close>

text \<open>
  Claim C7. When the bucket name is absent (or empty), \<open>syncToR2\<close> returns
  \<open>success: false\<close> with the error \<open>R2 storage is not configured\<close> (the specification's kind
  \<open>not_configured\<close>) and leaves the sandbox and the log untouched: no copy, no other call.
\<close>

theorem sync_not_configured:
  "\<not> truthy (R2_BUCKET_NAME env) \<Longrightarrow>
   syncToR2 rt env s =
     (Inr \<lparr>success = False, error = Some ''R2 storage is not configured'',
           details = Some ''Missing R2_BUCKET_NAME environment variable'', lastSync = None\<rparr>, s)"
  by (simp add: syncToR2_def io_catch_def io_return_def)

text \<open>C7 on the empty configuration.\<close>

theorem sync_not_configured_witness:
  "syncToR2 demo no_config (fresh, []) =
     (Inr \<lparr>success = False, error = Some ''R2 storage is not configured'',
           details = Some ''Missing R2_BUCKET_NAME environment variable'', lastSync = None\<rparr>,
      (fresh, []))"
  using sync_not_configured [of no_config demo "(fresh, [])"]
  by (simp add: no_config_def truthy_def)

text \<open>
  Claim C8, as amended. In the \<open>syncToR2\<close> of the complete gateway module, with the bucket
  name configured (without it C7 applies and the mount table is never queried): when the
  mount-table query answers \<open>not mounted\<close> and the \<open>mountR2Storage\<close> that follows returns
  \<open>false\<close>, the run returns \<open>success: false\<close> with the error \<open>R2 storage not mounted\<close> (the
  specification's kind \<open>mount_unavailable\<close>), it stops where the mount attempt stopped, and
  the copy command has not been run. The \<open>syncToR2\<close> of the shorter gateway module never
  queries the mount table and never attempts a mount: with the name configured its one
  sandbox call is the copy, and it reports success whenever that call returns.
\<close>

theorem sync_mount_unavailable:
  "(truthy (R2_BUCKET_NAME env)
    \<and> fst (exec rt ''mount | grep /data/moltbot || echo \"not mounted\"'' (w, [])) = Inr chk
    \<and> str_includes (stdout chk) ''not mounted''
    \<and> fst (mountR2Storage rt env
              (snd (exec rt ''mount | grep /data/moltbot || echo \"not mounted\"'' (w, []))))
        = Inr False
    \<longrightarrow>
      fst (syncToR2 rt env (w, []))
        = Inr \<lparr>success = False, error = Some ''R2 storage not mounted'',
               details = Some ''Failed to mount R2 bucket'', lastSync = None\<rparr>
      \<and> snd (syncToR2 rt env (w, []))
        = snd (mountR2Storage rt env
                 (snd (exec rt ''mount | grep /data/moltbot || echo \"not mounted\"'' (w, []))))
      \<and> ''rsync -av --delete /root/.openclaw/ /data/moltbot/openclaw/ 2>&1''
        \<notin> set (exec_cmds (snd (snd (syncToR2 rt env (w, []))))))
   \<and> (truthy (R2_BUCKET_NAME env) \<longrightarrow>
        exec_cmds (snd (snd (syncToR2_v1 rt env (w, []))))
          = [''rsync -av /root/.openclaw/ /data/moltbot/openclaw/ 2>&1'']
        \<and> \<not> list_ex is_mount (snd (snd (syncToR2_v1 rt env (w, []))))
        \<and> (fst (exec rt ''rsync -av /root/.openclaw/ /data/moltbot/openclaw/ 2>&1'' (w, [])) = Inr res
             \<longrightarrow> fst (syncToR2_v1 rt env (w, []))
                   = Inr \<lparr>success = True, error = None, details = None, lastSync = None\<rparr>))"
proof -
  have v1: "exec_cmds (snd (snd (syncToR2_v1 rt env (w, []))))
          = [''rsync -av /root/.openclaw/ /data/moltbot/openclaw/ 2>&1'']
        \<and> \<not> list_ex is_mount (snd (snd (syncToR2_v1 rt env (w, []))))
        \<and> (fst (exec rt ''rsync -av /root/.openclaw/ /data/moltbot/openclaw/ 2>&1'' (w, [])) = Inr res
             \<longrightarrow> fst (syncToR2_v1 rt env (w, []))
                   = Inr \<lparr>success = True, error = None, details = None, lastSync = None\<rparr>)"
    if "truthy (R2_BUCKET_NAME env)"
    using that by (auto simp: syncToR2_v1_run exec_def split: prod.splits sum.splits)
  from v1 sync_unavailable [of env rt w chk] show ?thesis by blast
qed

text \<open>
  The amended C8 on a sandbox with nothing mounted and a volume mounter that refuses: the
  complete module gives up before the copy.
\<close>

theorem sync_mount_unavailable_witness:
  "fst (syncToR2 demo full_config (mounter_down, []))
     = Inr \<lparr>success = False, error = Some ''R2 storage not mounted'',
            details = Some ''Failed to mount R2 bucket'', lastSync = None\<rparr>
   \<and> exec_cmds (snd (snd (syncToR2 demo full_config (mounter_down, []))))
     = [''mount | grep /data/moltbot || echo \"not mounted\"'', ''mkdir -p /data/moltbot'',
        ''chmod 777 /data/moltbot'']
   \<and> exec_cmds (snd (snd (syncToR2_v1 demo full_config (mounter_down, []))))
     = [''rsync -av /root/.openclaw/ /data/moltbot/openclaw/ 2>&1'']"
proof -
  have 1: "truthy (R2_BUCKET_NAME full_config)" by code_simp
  have 2: "fst (exec demo ''mount | grep /data/moltbot || echo \"not mounted\"'' (mounter_down, []))
             = Inr (ok_result ''not mounted'')" by code_simp
  have 3: "str_includes (stdout (ok_result ''not mounted'')) ''not mounted''" by code_simp
  have 4: "fst (mountR2Storage demo full_config
                (snd (exec demo ''mount | grep /data/moltbot || echo \"not mounted\"'' (mounter_down, []))))
         = Inr False" by code_simp
  have 5: "exec_cmds (snd (snd (syncToR2 demo full_config (mounter_down, []))))
     = [''mount | grep /data/moltbot || echo \"not mounted\"'', ''mkdir -p /data/moltbot'',
        ''chmod 777 /data/moltbot'']" by code_simp
  from sync_mount_unavailable [of full_config demo mounter_down "ok_result ''not mounted''"] 1 2 3 4 5
  show ?thesis by simp
qed

text \<open>
  C8 as stated fails on the shorter module: nothing is mounted (the query would print
  \<open>not mounted\<close>), a mount attempt would fail, and the run performs the copy and reports
  success.
\<close>

theorem sync_mount_unavailable_counterexample:
  "fst (exec demo ''mount | grep /data/moltbot || echo \"not mounted\"'' (mounter_down, []))
     = Inr (ok_result ''not mounted'')
   \<and> fst (mountR2Storage demo full_config (mounter_down, [])) = Inr False
   \<and> fst (syncToR2_v1 demo full_config (mounter_down, []))
       = Inr \<lparr>success = True, error = None, details = None, lastSync = None\<rparr>
   \<and> exec_cmds (snd (snd (syncToR2_v1 demo full_config (mounter_down, []))))
       = [''rsync -av /root/.openclaw/ /data/moltbot/openclaw/ 2>&1'']"
  by code_simp




text \<open>
  Claim C6 is not met by the code. The complete module runs the one-way mirror with
  deletion on the destination, but reads the outcome from \<open>stderr\<close> alone, which the
  \<open>2>&1\<close> of its own command empties, and never reads the exit status: a copy that fails
  with status 23 and its message on standard output is reported as \<open>success: true\<close> while
  the durable directory still holds a stale file and none of the local ones. The shorter
  module runs the copy without \<open>--delete\<close>: after a copy that went well, a file removed
  locally is still in the durable copy.
\<close>

theorem sync_reports_failed_copy:
  "last (snd (snd (syncToR2 demo full_config (silent_copy_failure, []))))
     = Exec ''rsync -av --delete /root/.openclaw/ /data/moltbot/openclaw/ 2>&1''
         (Inr \<lparr>stdout = ''rsync error: some files could not be transferred (code 23)'',
               stderr = [], exitCode = 23\<rparr>)
   \<and> fst (syncToR2 demo full_config (silent_copy_failure, []))
     = Inr \<lparr>success = True, error = None, details = None,
            lastSync = Some ''2026-01-01T00:00:00.000Z''\<rparr>
   \<and> local_files (fst (snd (syncToR2 demo full_config (silent_copy_failure, []))))
       = [''a.txt'', ''b.txt'']
   \<and> durable_files (fst (snd (syncToR2 demo full_config (silent_copy_failure, []))))
       = [''old.txt'']
   \<and> last (snd (snd (syncToR2_v1 demo full_config (after_local_delete, []))))
     = Exec ''rsync -av /root/.openclaw/ /data/moltbot/openclaw/ 2>&1''
         (Inr \<lparr>stdout = ''sending incremental file list'', stderr = [], exitCode = 0\<rparr>)
   \<and> fst (syncToR2_v1 demo full_config (after_local_delete, []))
     = Inr \<lparr>success = True, error = None, details = None, lastSync = None\<rparr>
   \<and> local_files (fst (snd (syncToR2_v1 demo full_config (after_local_delete, [])))) = [''a.txt'']
   \<and> durable_files (fst (snd (syncToR2_v1 demo full_config (after_local_delete, []))))
       = [''a.txt'', ''b.txt'']"
  by code_simp

end
